theory Spec2Isabelle
  imports Main "HOL-Library.Word"
begin

unbundle bit_operations_syntax

section \<open>Machine types, errors and buffers\<close>

type_synonym uint8_t = "8 word"
type_synonym uint32_t = "32 word"
type_synonym size_t = "64 word"
type_synonym haddr_t = "64 word"
type_synonym hid_t = int

text \<open>
  The error classes the two source files push with \<^verbatim>\<open>HGOTO_ERROR(major, minor, ...)\<close>.
  \<open>Fault\<close> is not an error the library reports: it stands for the undefined behaviour of
  the C code (a read or write past the end of a buffer, a null pointer dereferenced).
  The \<^verbatim>\<open>HDassert\<close> lines are compiled out of a production build and the model follows
  the production build.
\<close>

datatype H5E_major = H5E_ARGS | H5E_DATATYPE | H5E_REFERENCE | H5E_VOL

datatype H5E_minor =
    H5E_BADTYPE | H5E_BADVALUE | H5E_BADRANGE | H5E_CANTGET | H5E_CANTENCODE
  | H5E_CANTDECODE | H5E_CANTREMOVE | H5E_CANTSET | H5E_READERROR | H5E_UNSUPPORTED

datatype error = H5E H5E_major H5E_minor | Fault

text \<open>
  Modelled from the spec: the width of the 4-byte length field (macro
  \<^verbatim>\<open>H5_SIZEOF_UINT32_T\<close>) and of the record header, one kind byte and one flags byte
  (macro \<^verbatim>\<open>H5R_ENCODE_HEADER_SIZE\<close>); both macros live in headers outside the sources.
\<close>

definition H5_SIZEOF_UINT32_T :: nat where
  "H5_SIZEOF_UINT32_T = 4"

definition H5R_ENCODE_HEADER_SIZE :: nat where
  "H5R_ENCODE_HEADER_SIZE = 2"

text \<open>
  Modelled from the spec: the bit of the flags byte that marks a reference as external
  (macro \<^verbatim>\<open>H5R_IS_EXTERNAL\<close> of a header outside the sources).
\<close>

definition H5R_IS_EXTERNAL :: uint32_t where
  "H5R_IS_EXTERNAL = 1"

text \<open>
  Modelled from the spec: the reference kinds (enum \<^verbatim>\<open>H5R_type_t\<close> of a header outside
  the sources), as the integers of the C enum: a kind read from a record is a byte cast to
  the enum, so every integer has to be representable.
\<close>

type_synonym H5R_type_t = int

abbreviation (input) H5R_BADTYPE :: H5R_type_t where "H5R_BADTYPE \<equiv> - 1"
abbreviation (input) H5R_OBJECT1 :: H5R_type_t where "H5R_OBJECT1 \<equiv> 0"
abbreviation (input) H5R_DATASET_REGION1 :: H5R_type_t where "H5R_DATASET_REGION1 \<equiv> 1"
abbreviation (input) H5R_OBJECT2 :: H5R_type_t where "H5R_OBJECT2 \<equiv> 2"
abbreviation (input) H5R_DATASET_REGION2 :: H5R_type_t where "H5R_DATASET_REGION2 \<equiv> 3"
abbreviation (input) H5R_ATTR :: H5R_type_t where "H5R_ATTR \<equiv> 4"
abbreviation (input) H5R_MAXTYPE :: H5R_type_t where "H5R_MAXTYPE \<equiv> 5"

text \<open>
  Modelled from the spec: the 4-byte length codec (macros \<^verbatim>\<open>UINT32ENCODE\<close> and
  \<^verbatim>\<open>UINT32DECODE\<close> of a header outside the sources), least significant byte first.
  The decoder returns the value and the advanced pointer, \<open>None\<close> when fewer than four
  bytes are left; the encoder stores the low 32 bits of its argument.
\<close>

definition UINT32ENCODE :: "'a::len word \<Rightarrow> uint8_t list" where
  "UINT32ENCODE i = [ucast i, ucast (drop_bit 8 i), ucast (drop_bit 16 i), ucast (drop_bit 24 i)]"

fun UINT32DECODE :: "uint8_t list \<Rightarrow> (uint32_t \<times> uint8_t list) option" where
  "UINT32DECODE (b0 # b1 # b2 # b3 # p) =
     Some (ucast b0 OR push_bit 8 (ucast b1) OR push_bit 16 (ucast b2) OR push_bit 24 (ucast b3), p)"
| "UINT32DECODE _ = None"

section \<open>Files and reference datatypes\<close>

text \<open>
  A file object \<^verbatim>\<open>H5F_t\<close>: the address of the object itself (two pointers are equal when
  the records are), the address of its shared part \<^verbatim>\<open>f->shared\<close>, the address width
  \<^verbatim>\<open>H5F_SIZEOF_ADDR(f)\<close> and the name \<^verbatim>\<open>H5F_ACTUAL_NAME(f)\<close>.
\<close>

record H5F_t =
  f_ptr :: nat
  f_shared :: nat
  f_sizeof_addr :: size_t
  f_actual_name :: string

datatype H5T_loc_t = H5T_LOC_BADLOC | H5T_LOC_MEMORY | H5T_LOC_DISK | H5T_LOC_MAXLOC

text \<open>The converter functions a descriptor can be bound to; \<open>None\<close> is the null pointer.\<close>

datatype getsize_fn =
  Fn_ref_mem_getsize | Fn_ref_disk_getsize | Fn_ref_obj_disk_getsize | Fn_ref_dsetreg_disk_getsize

datatype read_fn =
  Fn_ref_mem_read | Fn_ref_disk_read | Fn_ref_obj_disk_read | Fn_ref_dsetreg_disk_read

datatype write_fn = Fn_ref_mem_write | Fn_ref_disk_write

text \<open>
  The fields of \<^verbatim>\<open>dt->shared\<close> that \<^verbatim>\<open>H5T__ref_set_loc\<close> reads and writes: \<^verbatim>\<open>size\<close>,
  \<^verbatim>\<open>u.atomic.prec\<close> and the members of \<^verbatim>\<open>u.atomic.u.r\<close>.
\<close>

record H5T_t =
  shared_size :: size_t
  atomic_prec :: size_t
  r_rtype :: H5R_type_t
  r_opaque :: bool
  r_loc :: H5T_loc_t
  r_f :: "H5F_t option"
  r_getsize :: "getsize_fn option"
  r_read :: "read_fn option"
  r_write :: "write_fn option"

text \<open>
  Modelled from the spec: the three fixed in-memory widths (macros
  \<^verbatim>\<open>H5R_REF_BUF_SIZE\<close>, \<^verbatim>\<open>H5R_OBJ_REF_BUF_SIZE\<close> and \<^verbatim>\<open>H5R_DSET_REG_REF_BUF_SIZE\<close> of a
  header outside the sources), and the legacy on-disk widths: the address width of the
  container, and that width plus a 4-byte heap index.
\<close>

definition H5T_REF_MEM_SIZE :: size_t where
  "H5T_REF_MEM_SIZE = 64"

definition H5T_REF_OBJ_MEM_SIZE :: size_t where
  "H5T_REF_OBJ_MEM_SIZE = 8"

definition H5T_REF_DSETREG_MEM_SIZE :: size_t where
  "H5T_REF_DSETREG_MEM_SIZE = 12"

definition H5T_REF_OBJ_DISK_SIZE :: "H5F_t \<Rightarrow> size_t" where
  "H5T_REF_OBJ_DISK_SIZE f = f_sizeof_addr f"

definition H5T_REF_DSETREG_DISK_SIZE :: "H5F_t \<Rightarrow> size_t" where
  "H5T_REF_DSETREG_DISK_SIZE f = f_sizeof_addr f + 4"

text \<open>
  The fields of an in-memory reference \<^verbatim>\<open>struct href\<close> that the sources touch (its
  declaration is outside the sources): the location identifier, the kind as an
  \<^verbatim>\<open>int8_t\<close>, the token size as a \<^verbatim>\<open>uint8_t\<close>, the cached encode size and the file name
  of an external reference (\<^verbatim>\<open>H5R_REF_FILENAME\<close>, null when there is none).
\<close>

record href =
  href_loc_id :: hid_t
  href_type :: "8 word"
  href_token_size :: uint8_t
  href_encode_size :: uint32_t
  href_filename :: "string option"

text \<open>The reference after \<^verbatim>\<open>HDmemset(&fixed_ref, 0, sizeof(fixed_ref))\<close>.\<close>

definition zeroed_href :: href where
  "zeroed_href =
     \<lparr>href_loc_id = 0, href_type = 0, href_token_size = 0, href_encode_size = 0, href_filename = None\<rparr>"

record H5VL_file_cont_info_t =
  ci_version :: nat
  ci_feature_flags :: "64 word"
  ci_token_size :: size_t
  ci_blob_id_size :: size_t

text \<open>
  Modelled from the spec: the version number \<^verbatim>\<open>H5VL_CONTAINER_INFO_VERSION\<close> that
  initialises the container info (a macro of a header outside the sources).
\<close>

definition H5VL_CONTAINER_INFO_VERSION :: nat where
  "H5VL_CONTAINER_INFO_VERSION = 1"

text \<open>
  The library functions that \<^verbatim>\<open>H5Tref.c\<close> calls and that are outside the sources, as
  parameters. \<open>None\<close> is a negative return value (or a null pointer, for the two lookups).
  \<^item> \<open>H5F__get_cont_info f info\<close> fills in the container info;
  \<^item> \<open>H5R__encode name ref flags\<close> is H5R__encode called with a null destination buffer:
    it only computes the encode size;
  \<^item> \<open>H5VL_vol_object\<close> and \<open>H5VL_object_data\<close> resolve a location identifier to its file.
\<close>

type_synonym H5VL_object_t = nat

record ref_env =
  H5F__get_cont_info :: "H5F_t \<Rightarrow> H5VL_file_cont_info_t \<Rightarrow> H5VL_file_cont_info_t option"
  H5R__encode :: "string option \<Rightarrow> href \<Rightarrow> uint32_t \<Rightarrow> size_t option"
  H5VL_vol_object :: "hid_t \<Rightarrow> H5VL_object_t option"
  H5VL_object_data :: "H5VL_object_t \<Rightarrow> H5F_t option"

section \<open>The location state machine\<close>

text \<open>
  \<^verbatim>\<open>H5T__ref_set_loc(dt, f, loc)\<close>. The descriptor is changed in place, so the model
  returns it with the result, also when the result is a failure: the generic disk branch
  has stored the location and the file before its two fallible calls.
  The result is \<open>Inr False\<close> for \<^verbatim>\<open>FALSE\<close>, \<open>Inr True\<close> for \<^verbatim>\<open>TRUE\<close>, \<open>Inl e\<close> for a failure.
  A location outside the enum takes the \<^verbatim>\<open>default\<close> branch, which is the branch of
  \<^verbatim>\<open>H5T_LOC_MAXLOC\<close>. With a null \<open>f\<close> the disk branch dereferences it (\<^verbatim>\<open>H5F_SIZEOF_ADDR(f)\<close>,
  \<^verbatim>\<open>H5HG_HEAP_ID_SIZE(f)\<close>) or hands it to \<^verbatim>\<open>H5F__get_cont_info\<close>: a \<open>Fault\<close>.
\<close>

definition H5T__ref_set_loc ::
  "ref_env \<Rightarrow> H5T_t \<Rightarrow> H5F_t option \<Rightarrow> H5T_loc_t \<Rightarrow> (error + bool) \<times> H5T_t" where
  "H5T__ref_set_loc env dt f loc =
    (if loc = r_loc dt \<and> f = r_f dt then (Inr False, dt)
     else case loc of
       H5T_LOC_MEMORY \<Rightarrow>
         (let dt1 = dt\<lparr>r_loc := H5T_LOC_MEMORY, r_f := f\<rparr> in
          if r_opaque dt1 then
            (let dt2 = dt1\<lparr>shared_size := H5T_REF_MEM_SIZE\<rparr>;
                 dt3 = dt2\<lparr>atomic_prec := 8 * shared_size dt2\<rparr>
             in (Inr True, dt3\<lparr>r_getsize := Some Fn_ref_mem_getsize,
                                r_read := Some Fn_ref_mem_read,
                                r_write := Some Fn_ref_mem_write\<rparr>))
          else if r_rtype dt1 = H5R_OBJECT1 then
            (let dt2 = dt1\<lparr>shared_size := H5T_REF_OBJ_MEM_SIZE\<rparr>;
                 dt3 = dt2\<lparr>atomic_prec := 8 * shared_size dt2\<rparr>
             in (Inr True, dt3\<lparr>r_getsize := None, r_read := None, r_write := None\<rparr>))
          else if r_rtype dt1 = H5R_DATASET_REGION1 then
            (let dt2 = dt1\<lparr>shared_size := H5T_REF_DSETREG_MEM_SIZE\<rparr>;
                 dt3 = dt2\<lparr>atomic_prec := 8 * shared_size dt2\<rparr>
             in (Inr True, dt3\<lparr>r_getsize := None, r_read := None, r_write := None\<rparr>))
          else (Inr True, dt1))
     | H5T_LOC_DISK \<Rightarrow>
         (let dt1 = dt\<lparr>r_loc := H5T_LOC_DISK, r_f := f\<rparr> in
          case f of
            None \<Rightarrow> (Inl Fault, dt1)
          | Some file \<Rightarrow>
              if r_rtype dt1 = H5R_OBJECT1 then
                (let dt2 = dt1\<lparr>shared_size := H5T_REF_OBJ_DISK_SIZE file\<rparr>;
                     dt3 = dt2\<lparr>atomic_prec := 8 * shared_size dt2\<rparr>
                 in (Inr True, dt3\<lparr>r_getsize := Some Fn_ref_obj_disk_getsize,
                                    r_read := Some Fn_ref_obj_disk_read,
                                    r_write := None\<rparr>))
              else if r_rtype dt1 = H5R_DATASET_REGION1 then
                (let dt2 = dt1\<lparr>shared_size := H5T_REF_DSETREG_DISK_SIZE file\<rparr>;
                     dt3 = dt2\<lparr>atomic_prec := 8 * shared_size dt2\<rparr>
                 in (Inr True, dt3\<lparr>r_getsize := Some Fn_ref_dsetreg_disk_getsize,
                                    r_read := Some Fn_ref_dsetreg_disk_read,
                                    r_write := None\<rparr>))
              else
                (case H5F__get_cont_info env file
                        \<lparr>ci_version = H5VL_CONTAINER_INFO_VERSION, ci_feature_flags = 0,
                         ci_token_size = 0, ci_blob_id_size = 0\<rparr> of
                   None \<Rightarrow> (Inl (H5E H5E_DATATYPE H5E_CANTGET), dt1)
                 | Some cont_info \<Rightarrow>
                     (let fixed_ref = zeroed_href\<lparr>href_type := word_of_int H5R_OBJECT2,
                                                  href_token_size := ucast (ci_token_size cont_info)\<rparr>
                      in case H5R__encode env None fixed_ref 0 of
                           None \<Rightarrow> (Inl (H5E H5E_REFERENCE H5E_CANTGET), dt1)
                         | Some ref_encode_size \<Rightarrow>
                             (let dt2 = dt1\<lparr>shared_size :=
                                          max (of_nat H5_SIZEOF_UINT32_T + of_nat H5R_ENCODE_HEADER_SIZE
                                                 + ci_blob_id_size cont_info)
                                              ref_encode_size\<rparr>;
                                  dt3 = dt2\<lparr>atomic_prec := 8 * shared_size dt2\<rparr>
                              in (Inr True, dt3\<lparr>r_getsize := Some Fn_ref_disk_getsize,
                                                 r_read := Some Fn_ref_disk_read,
                                                 r_write := Some Fn_ref_disk_write\<rparr>)))))
     | H5T_LOC_BADLOC \<Rightarrow>
         (Inr True, dt\<lparr>r_loc := H5T_LOC_BADLOC, r_f := None,
                       r_getsize := None, r_read := None, r_write := None\<rparr>)
     | H5T_LOC_MAXLOC \<Rightarrow> (Inl (H5E H5E_DATATYPE H5E_BADRANGE), dt))"

text \<open>The branches of the state machine that assign a size to the datatype.\<close>

definition assigns_size :: "H5T_t \<Rightarrow> H5T_loc_t \<Rightarrow> bool" where
  "assigns_size dt loc =
     (loc = H5T_LOC_DISK \<or>
      (loc = H5T_LOC_MEMORY \<and>
         (r_opaque dt \<or> r_rtype dt = H5R_OBJECT1 \<or> r_rtype dt = H5R_DATASET_REGION1)))"

section \<open>The memory-side size query\<close>

text \<open>
  The calls \<^verbatim>\<open>H5T__ref_mem_getsize\<close> makes to its collaborators, in order:
  \<^verbatim>\<open>H5CX_set_libver_bounds(dst_f)\<close> and the trial encode
  \<^verbatim>\<open>H5R__encode(name, ref, NULL, &size, flags)\<close>.
\<close>

datatype ref_call =
    Call_set_libver_bounds H5F_t
  | Call_encode "string option" href uint32_t

text \<open>
  \<^verbatim>\<open>H5T__ref_mem_getsize(src_f, src_buf, src_size, dst_f, dst_copy)\<close>: the source buffer is a
  \<^verbatim>\<open>struct href\<close>; \<open>dst_copy\<close> is the flag behind the output pointer, given with the value
  the caller stored and returned as the function leaves it. The C function returns 0 on
  failure; the model returns the error it pushes.
\<close>

definition H5T__ref_mem_getsize ::
  "ref_env \<Rightarrow> href \<Rightarrow> H5F_t \<Rightarrow> bool \<Rightarrow> (error + size_t) \<times> bool \<times> ref_call list" where
  "H5T__ref_mem_getsize env src_ref dst_f dst_copy =
    (case H5VL_vol_object env (href_loc_id src_ref) of
       None \<Rightarrow> (Inl (H5E H5E_ARGS H5E_BADTYPE), dst_copy, [])
     | Some vol_obj_file \<Rightarrow>
        (case H5VL_object_data env vol_obj_file of
           None \<Rightarrow> (Inl (H5E H5E_ARGS H5E_BADTYPE), dst_copy, [])
         | Some src_f \<Rightarrow>
            (let flags = 0 OR (if f_shared src_f \<noteq> f_shared dst_f then H5R_IS_EXTERNAL else 0) in
             if flags \<noteq> 0 \<or> href_encode_size src_ref = 0 then
               (let calls =
                      (if href_type src_ref = word_of_int H5R_DATASET_REGION2
                       then [Call_set_libver_bounds dst_f] else [])
                      @ [Call_encode (Some (f_actual_name src_f)) src_ref flags]
                in case H5R__encode env (Some (f_actual_name src_f)) src_ref flags of
                     None \<Rightarrow> (Inl (H5E H5E_REFERENCE H5E_CANTENCODE), dst_copy, calls)
                   | Some ret_value \<Rightarrow> (Inr ret_value, dst_copy, calls))
             else
               (Inr (ucast (href_encode_size src_ref)),
                (if href_type src_ref = word_of_int H5R_OBJECT2 then True else dst_copy),
                []))))"

section \<open>The disk-side converter\<close>

text \<open>
  \<^verbatim>\<open>H5T__ref_disk_getsize(src_f, src_buf, src_size, dst_f, dst_copy)\<close>: a buffer is the list
  of the bytes from the pointer to the end of its allocation, and \<open>src_size\<close> is the number
  the caller passes. A byte cast to the enum is never negative.
\<close>

definition H5T__ref_disk_getsize ::
  "uint8_t list \<Rightarrow> size_t \<Rightarrow> bool \<Rightarrow> (error + size_t) \<times> bool" where
  "H5T__ref_disk_getsize src_buf src_size dst_copy =
    (case src_buf of
       [] \<Rightarrow> (Inl Fault, dst_copy)
     | b0 # p1 \<Rightarrow>
        (let ref_type = uint b0 in
         if ref_type \<le> H5R_BADTYPE \<or> ref_type \<ge> H5R_MAXTYPE
         then (Inl (H5E H5E_ARGS H5E_BADVALUE), dst_copy)
         else case p1 of
           [] \<Rightarrow> (Inl Fault, dst_copy)
         | b1 # p2 \<Rightarrow>
            (let flags = (ucast b1 :: uint32_t) in
             if (flags AND H5R_IS_EXTERNAL) = 0 \<and> ref_type = H5R_OBJECT2
             then (Inr src_size, True)
             else case UINT32DECODE p2 of
                    None \<Rightarrow> (Inl Fault, dst_copy)
                  | Some (n, p3) \<Rightarrow>
                      (Inr (ucast n + of_nat H5R_ENCODE_HEADER_SIZE), dst_copy))))"

text \<open>
  The blob callbacks of the file's connector class (\<^verbatim>\<open>H5F_VOL_CLS(f)\<close>), reached through
  the wrappers \<^verbatim>\<open>H5VL_blob_put\<close>, \<^verbatim>\<open>H5VL_blob_get\<close> and \<^verbatim>\<open>H5VL_blob_specific\<close>, which are
  outside the sources: parameters over a store of type \<open>'s\<close>.
  \<^item> \<open>blob_put blob size ctx id s\<close>: \<open>blob\<close> and \<open>id\<close> are the bytes from the two pointers
    on; the result is the bytes from \<open>id\<close> on after the call, \<open>None\<close> for a negative return.
  \<^item> \<open>blob_get id ctx buf size s\<close>: the result is the bytes from \<open>buf\<close> on and the size
    written back through the size pointer.
  \<^item> \<open>blob_specific id op ctx s\<close>: \<open>False\<close> for a negative return.
\<close>

datatype H5VL_blob_specific_t =
  H5VL_BLOB_DELETE | H5VL_BLOB_GETSIZE | H5VL_BLOB_ISNULL | H5VL_BLOB_SETNULL | H5VL_BLOB_OTHER

record 's H5VL_class_t =
  blob_put :: "uint8_t list \<Rightarrow> size_t \<Rightarrow> H5F_t \<Rightarrow> uint8_t list \<Rightarrow> 's \<Rightarrow> uint8_t list option \<times> 's"
  blob_get :: "uint8_t list \<Rightarrow> H5F_t \<Rightarrow> uint8_t list \<Rightarrow> size_t \<Rightarrow> 's
                 \<Rightarrow> (uint8_t list \<times> size_t) option \<times> 's"
  blob_specific :: "uint8_t list \<Rightarrow> H5VL_blob_specific_t \<Rightarrow> H5F_t \<Rightarrow> 's \<Rightarrow> bool \<times> 's"

text \<open>The blob calls a converter makes, in order, each with the pointer it passes.\<close>

datatype blob_call =
    Call_blob_put "uint8_t list" size_t H5F_t
  | Call_blob_get "uint8_t list" H5F_t
  | Call_blob_specific "uint8_t list" H5VL_blob_specific_t H5F_t

text \<open>
  \<^verbatim>\<open>H5T__ref_disk_read(src_f, src_buf, src_size, dst_f, dst_buf, dst_size)\<close>. The result
  carries the destination buffer, the store and the blob calls made.
\<close>

definition H5T__ref_disk_read ::
  "(H5F_t \<Rightarrow> 's H5VL_class_t) \<Rightarrow> H5F_t \<Rightarrow> uint8_t list \<Rightarrow> size_t \<Rightarrow> uint8_t list \<Rightarrow> size_t \<Rightarrow> 's
     \<Rightarrow> (error + unit) \<times> uint8_t list \<times> 's \<times> blob_call list" where
  "H5T__ref_disk_read H5F_VOL_CLS src_f src_buf src_size dst_buf dst_size s =
    (if length src_buf < H5R_ENCODE_HEADER_SIZE \<or> length dst_buf < H5R_ENCODE_HEADER_SIZE
     then (Inl Fault, dst_buf, s, [])
     else
       (let dst1 = take H5R_ENCODE_HEADER_SIZE src_buf @ drop H5R_ENCODE_HEADER_SIZE dst_buf;
            p = drop H5R_ENCODE_HEADER_SIZE src_buf;
            q = drop H5R_ENCODE_HEADER_SIZE dst1;
            expected_size = dst_size - of_nat H5R_ENCODE_HEADER_SIZE;
            p = drop H5_SIZEOF_UINT32_T p;
            calls = [Call_blob_get p src_f]
        in case blob_get (H5F_VOL_CLS src_f) p src_f q dst_size s of
             (None, s1) \<Rightarrow> (Inl (H5E H5E_DATATYPE H5E_CANTGET), dst1, s1, calls)
           | (Some (q1, dst_size1), s1) \<Rightarrow>
               (let dst2 = take H5R_ENCODE_HEADER_SIZE dst1 @ q1 in
                if dst_size1 \<noteq> expected_size
                then (Inl (H5E H5E_REFERENCE H5E_CANTDECODE), dst2, s1, calls)
                else (Inr (), dst2, s1, calls))))"

text \<open>
  \<^verbatim>\<open>H5T__ref_disk_write(src_f, src_buf, src_size, src_type, dst_f, dst_buf, dst_size, bg_buf)\<close>;
  \<open>bg_buf\<close> is \<open>None\<close> for a null background buffer.
\<close>

definition H5T__ref_disk_write ::
  "(H5F_t \<Rightarrow> 's H5VL_class_t) \<Rightarrow> uint8_t list \<Rightarrow> size_t \<Rightarrow> H5F_t \<Rightarrow> uint8_t list \<Rightarrow> size_t
     \<Rightarrow> uint8_t list option \<Rightarrow> 's \<Rightarrow> (error + unit) \<times> uint8_t list \<times> 's \<times> blob_call list" where
  "H5T__ref_disk_write H5F_VOL_CLS src_buf src_size dst_f dst_buf dst_size bg_buf s =
    (case (case bg_buf of
             None \<Rightarrow> (True, s, [])
           | Some bg \<Rightarrow>
               (let p_bg = drop H5_SIZEOF_UINT32_T bg;
                    (ok, s1) = blob_specific (H5F_VOL_CLS dst_f) p_bg H5VL_BLOB_DELETE dst_f s
                in (ok, s1, [Call_blob_specific p_bg H5VL_BLOB_DELETE dst_f]))) of
       (False, s1, calls) \<Rightarrow> (Inl (H5E H5E_DATATYPE H5E_CANTREMOVE), dst_buf, s1, calls)
     | (True, s1, calls) \<Rightarrow>
         if length src_buf < H5R_ENCODE_HEADER_SIZE
            \<or> length dst_buf < H5R_ENCODE_HEADER_SIZE + H5_SIZEOF_UINT32_T
         then (Inl Fault, dst_buf, s1, calls)
         else
           (let dst1 = take H5R_ENCODE_HEADER_SIZE src_buf @ drop H5R_ENCODE_HEADER_SIZE dst_buf;
                p = drop H5R_ENCODE_HEADER_SIZE src_buf;
                src_size1 = src_size - of_nat H5R_ENCODE_HEADER_SIZE;
                dst2 = take H5R_ENCODE_HEADER_SIZE dst1 @ UINT32ENCODE src_size1
                         @ drop (H5R_ENCODE_HEADER_SIZE + H5_SIZEOF_UINT32_T) dst1;
                q = drop (H5R_ENCODE_HEADER_SIZE + H5_SIZEOF_UINT32_T) dst2;
                calls1 = calls @ [Call_blob_put p src_size1 dst_f]
            in case blob_put (H5F_VOL_CLS dst_f) p src_size1 dst_f q s1 of
                 (None, s2) \<Rightarrow> (Inl (H5E H5E_DATATYPE H5E_CANTSET), dst2, s2, calls1)
               | (Some q1, s2) \<Rightarrow>
                   (Inr (), take (H5R_ENCODE_HEADER_SIZE + H5_SIZEOF_UINT32_T) dst2 @ q1, s2, calls1)))"

text \<open>
  Where a generic record keeps its blob identifier: \<^verbatim>\<open>H5T__ref_disk_write\<close> stores it after
  the header and the length field, and \<^verbatim>\<open>H5T__ref_disk_read\<close> reads it from there.
\<close>

definition record_blob_id :: "uint8_t list \<Rightarrow> uint8_t list" where
  "record_blob_id rec = drop (H5R_ENCODE_HEADER_SIZE + H5_SIZEOF_UINT32_T) rec"

section \<open>The blob callbacks of the native connector\<close>

text \<open>
  A global heap identifier \<^verbatim>\<open>H5HG_t\<close>, and the library functions the callbacks call that
  are outside the sources, as parameters over a heap of type \<open>'h\<close>:
  \<^item> \<open>H5F_addr_encode f addr\<close> gives the bytes stored for an address, and
    \<open>H5F_addr_decode f p\<close> the address read at \<open>p\<close> with the advanced pointer (\<open>None\<close>:
    the bytes at \<open>p\<close> run out);
  \<^item> \<open>H5HG_read f hobjid buf h\<close> gives the bytes from \<open>buf\<close> on after the read, \<open>None\<close> for
    a null return;
  \<^item> \<open>H5HG_remove f hobjid h\<close> gives \<open>False\<close> for a negative return.
\<close>

record H5HG_t =
  hg_addr :: haddr_t
  hg_idx :: size_t

record 'h native_env =
  H5F_addr_encode :: "H5F_t \<Rightarrow> haddr_t \<Rightarrow> uint8_t list"
  H5F_addr_decode :: "H5F_t \<Rightarrow> uint8_t list \<Rightarrow> (haddr_t \<times> uint8_t list) option"
  H5HG_read :: "H5F_t \<Rightarrow> H5HG_t \<Rightarrow> uint8_t list \<Rightarrow> 'h \<Rightarrow> uint8_t list option \<times> 'h"
  H5HG_remove :: "H5F_t \<Rightarrow> H5HG_t \<Rightarrow> 'h \<Rightarrow> bool \<times> 'h"

text \<open>The heap calls a callback makes, in order.\<close>

datatype heap_call = Call_HG_read H5F_t H5HG_t | Call_HG_remove H5F_t H5HG_t

text \<open>Storing bytes at the front of a buffer; \<open>None\<close> when they do not fit.\<close>

definition buf_store :: "uint8_t list \<Rightarrow> uint8_t list \<Rightarrow> uint8_t list option" where
  "buf_store buf bs = (if length bs \<le> length buf then Some (bs @ drop (length bs) buf) else None)"

text \<open>
  \<^verbatim>\<open>H5VL__native_blob_get(id, ctx, buf)\<close>: the result carries the destination buffer, the
  heap and the heap calls made.
\<close>

definition H5VL__native_blob_get ::
  "'h native_env \<Rightarrow> uint8_t list \<Rightarrow> H5F_t \<Rightarrow> uint8_t list \<Rightarrow> 'h
     \<Rightarrow> (error + unit) \<times> uint8_t list \<times> 'h \<times> heap_call list" where
  "H5VL__native_blob_get env vl f buf h =
    (if length vl < 4 then (Inl Fault, buf, h, [])
     else case H5F_addr_decode env f (drop 4 vl) of
       None \<Rightarrow> (Inl Fault, buf, h, [])
     | Some (addr, vl1) \<Rightarrow>
        (case UINT32DECODE vl1 of
           None \<Rightarrow> (Inl Fault, buf, h, [])
         | Some (idx, vl2) \<Rightarrow>
            (let hobjid = \<lparr>hg_addr = addr, hg_idx = ucast idx\<rparr> in
             if hg_addr hobjid > 0 then
               (case H5HG_read env f hobjid buf h of
                  (None, h1) \<Rightarrow> (Inl (H5E H5E_DATATYPE H5E_READERROR), buf, h1, [Call_HG_read f hobjid])
                | (Some buf1, h1) \<Rightarrow> (Inr (), buf1, h1, [Call_HG_read f hobjid]))
             else (Inr (), buf, h, []))))"

text \<open>
  What \<^verbatim>\<open>H5VL__native_blob_specific\<close> hands back through its pointers: the size, the null
  flag, the identifier buffer it rewrote, or nothing.
\<close>

datatype blob_specific_out =
  Out_size size_t | Out_isnull bool | Out_id "uint8_t list" | Out_nothing

text \<open>
  \<^verbatim>\<open>H5VL__native_blob_specific(id, specific_type, arguments)\<close>; \<open>f\<close> is the file among the
  variable arguments (\<^verbatim>\<open>H5VL_BLOB_GETSIZE\<close> takes none).
\<close>

definition H5VL__native_blob_specific ::
  "'h native_env \<Rightarrow> uint8_t list \<Rightarrow> H5VL_blob_specific_t \<Rightarrow> H5F_t \<Rightarrow> 'h
     \<Rightarrow> (error + blob_specific_out) \<times> 'h \<times> heap_call list" where
  "H5VL__native_blob_specific env vl specific_type f h =
    (case specific_type of
       H5VL_BLOB_GETSIZE \<Rightarrow>
         (case UINT32DECODE vl of
            None \<Rightarrow> (Inl Fault, h, [])
          | Some (n, vl1) \<Rightarrow> (Inr (Out_size (ucast n)), h, []))
     | H5VL_BLOB_ISNULL \<Rightarrow>
         (if length vl < 4 then (Inl Fault, h, [])
          else case H5F_addr_decode env f (drop 4 vl) of
            None \<Rightarrow> (Inl Fault, h, [])
          | Some (addr, vl1) \<Rightarrow> (Inr (Out_isnull (if addr = 0 then True else False)), h, []))
     | H5VL_BLOB_SETNULL \<Rightarrow>
         (case buf_store vl
                 (UINT32ENCODE (0 :: uint32_t) @ H5F_addr_encode env f 0 @ UINT32ENCODE (0 :: uint32_t)) of
            None \<Rightarrow> (Inl Fault, h, [])
          | Some vl1 \<Rightarrow> (Inr (Out_id vl1), h, []))
     | H5VL_BLOB_DELETE \<Rightarrow>
         (case UINT32DECODE vl of
            None \<Rightarrow> (Inl Fault, h, [])
          | Some (n, vl1) \<Rightarrow>
             (let seq_len = (ucast n :: size_t) in
              if seq_len > 0 then
                (case H5F_addr_decode env f vl1 of
                   None \<Rightarrow> (Inl Fault, h, [])
                 | Some (addr, vl2) \<Rightarrow>
                    (case UINT32DECODE vl2 of
                       None \<Rightarrow> (Inl Fault, h, [])
                     | Some (idx, vl3) \<Rightarrow>
                        (let hobjid = \<lparr>hg_addr = addr, hg_idx = ucast idx\<rparr> in
                         if hg_addr hobjid > 0 then
                           (case H5HG_remove env f hobjid h of
                              (False, h1) \<Rightarrow>
                                (Inl (H5E H5E_VOL H5E_CANTREMOVE), h1, [Call_HG_remove f hobjid])
                            | (True, h1) \<Rightarrow> (Inr Out_nothing, h1, [Call_HG_remove f hobjid]))
                         else (Inr Out_nothing, h, []))))
              else (Inr Out_nothing, h, [])))
     | H5VL_BLOB_OTHER \<Rightarrow> (Inl (H5E H5E_VOL H5E_UNSUPPORTED), h, []))"

section \<open>Concrete collaborators\<close>

text \<open>
  Instances of the parameters, on which the general theorems are run: two files, a
  library environment whose calls succeed and one whose container query fails, a blob
  store that keeps its blobs in a list and names them by a 4-byte index, and a heap with a
  little-endian address codec of the file's address width.
\<close>

definition file_A :: H5F_t where
  "file_A = \<lparr>f_ptr = 1, f_shared = 10, f_sizeof_addr = 8, f_actual_name = ''a.h5''\<rparr>"

definition file_B :: H5F_t where
  "file_B = \<lparr>f_ptr = 2, f_shared = 20, f_sizeof_addr = 8, f_actual_name = ''b.h5''\<rparr>"

definition lib_env :: ref_env where
  "lib_env =
     \<lparr>H5F__get_cont_info = (\<lambda>f info. Some (info\<lparr>ci_token_size := 16, ci_blob_id_size := 12\<rparr>)),
      H5R__encode = (\<lambda>name r flags. Some (2 + 1 + ucast (href_token_size r) + ucast flags * 4)),
      H5VL_vol_object = (\<lambda>i. if i = 7 then Some 70 else None),
      H5VL_object_data = (\<lambda>v. if v = 70 then Some file_A else None)\<rparr>"

definition lib_env_no_info :: ref_env where
  "lib_env_no_info = lib_env\<lparr>H5F__get_cont_info := (\<lambda>f info. None)\<rparr>"

definition ref_dt :: H5T_t where
  "ref_dt =
     \<lparr>shared_size = 64, atomic_prec = 512, r_rtype = H5R_OBJECT2, r_opaque = True,
      r_loc = H5T_LOC_MEMORY, r_f = None, r_getsize = Some Fn_ref_mem_getsize,
      r_read = Some Fn_ref_mem_read, r_write = Some Fn_ref_mem_write\<rparr>"

definition obj_ref :: href where
  "obj_ref = zeroed_href\<lparr>href_loc_id := 7, href_type := word_of_int H5R_OBJECT2,
                          href_token_size := 16, href_encode_size := 19\<rparr>"

text \<open>
  The list store: blob number \<open>n\<close> (from 1) is entry \<open>n - 1\<close> of the list, \<open>None\<close> once it
  is deleted; an identifier is the number in four bytes.
\<close>

type_synonym list_store = "uint8_t list option list"

definition list_store_lookup :: "uint8_t list \<Rightarrow> list_store \<Rightarrow> (nat \<times> uint8_t list) option" where
  "list_store_lookup ident s =
     (case UINT32DECODE ident of
        None \<Rightarrow> None
      | Some (n, rest) \<Rightarrow>
          if n = 0 \<or> length s < unat n then None
          else (case s ! (unat n - 1) of None \<Rightarrow> None | Some blob \<Rightarrow> Some (unat n - 1, blob)))"

definition list_store_cls :: "H5F_t \<Rightarrow> list_store H5VL_class_t" where
  "list_store_cls f =
     \<lparr>blob_put = (\<lambda>blob size ctx ident s.
         if length ident < 4 \<or> length blob < unat size then (None, s)
         else (Some (UINT32ENCODE (word_of_nat (length s + 1) :: uint32_t) @ drop 4 ident),
               s @ [Some (take (unat size) blob)])),
      blob_get = (\<lambda>ident ctx buf size s.
         case list_store_lookup ident s of
           None \<Rightarrow> (None, s)
         | Some (i, blob) \<Rightarrow>
             if length buf < length blob then (None, s)
             else (Some (blob @ drop (length blob) buf, word_of_nat (length blob)), s)),
      blob_specific = (\<lambda>ident op ctx s.
         case op of
           H5VL_BLOB_DELETE \<Rightarrow>
             (case list_store_lookup ident s of
                None \<Rightarrow> (False, s)
              | Some (i, blob) \<Rightarrow> (True, s[i := None]))
         | _ \<Rightarrow> (False, s))\<rparr>"

text \<open>The little-endian value of a byte list, and the codec built on it.\<close>

fun le_value :: "uint8_t list \<Rightarrow> haddr_t" where
  "le_value [] = 0"
| "le_value (b # bs) = ucast b OR push_bit 8 (le_value bs)"

fun le_bytes :: "nat \<Rightarrow> haddr_t \<Rightarrow> uint8_t list" where
  "le_bytes 0 a = []"
| "le_bytes (Suc n) a = ucast a # le_bytes n (drop_bit 8 a)"

type_synonym list_heap = "(H5HG_t \<times> uint8_t list) list"

definition heap_env :: "list_heap native_env" where
  "heap_env =
     \<lparr>H5F_addr_encode = (\<lambda>f a. le_bytes (unat (f_sizeof_addr f)) a),
      H5F_addr_decode = (\<lambda>f p.
         if length p < unat (f_sizeof_addr f) then None
         else Some (le_value (take (unat (f_sizeof_addr f)) p), drop (unat (f_sizeof_addr f)) p)),
      H5HG_read = (\<lambda>f hobjid buf h.
         case map_of h hobjid of
           None \<Rightarrow> (None, h)
         | Some obj \<Rightarrow> if length buf < length obj then (None, h)
                       else (Some (obj @ drop (length obj) buf), h)),
      H5HG_remove = (\<lambda>f hobjid h.
         case map_of h hobjid of
           None \<Rightarrow> (False, h)
         | Some obj \<Rightarrow> (True, filter (\<lambda>e. fst e \<noteq> hobjid) h))\<rparr>"

text \<open>The descriptor \<open>ref_dt\<close> once it is bound to \<open>file_A\<close> on disk.\<close>

definition ref_dt_on_disk :: H5T_t where
  "ref_dt_on_disk =
     ref_dt\<lparr>shared_size := 19, atomic_prec := 152, r_loc := H5T_LOC_DISK, r_f := Some file_A,
            r_getsize := Some Fn_ref_disk_getsize, r_read := Some Fn_ref_disk_read,
            r_write := Some Fn_ref_disk_write\<rparr>"

text \<open>The trial encodes among the calls of the memory-side size query.\<close>

fun is_encode_call :: "ref_call \<Rightarrow> bool" where
  "is_encode_call (Call_encode name r flags) = True"
| "is_encode_call (Call_set_libver_bounds f) = False"

text \<open>
  A generic record on disk with its store, as \<^verbatim>\<open>H5T__ref_disk_write\<close> leaves them after
  writing the encoded reference \<open>[3, 0, 0xAA, 0xBB, 0xCC]\<close> into an empty list store; and a
  heap with one object.
\<close>

definition old_record :: "uint8_t list" where
  "old_record = [3, 0, 3, 0, 0, 0, 1, 0, 0, 0]"

definition old_store :: list_store where
  "old_store = [Some [0xAA, 0xBB, 0xCC]]"

definition one_heap :: list_heap where
  "one_heap = [(\<lparr>hg_addr = 5, hg_idx = 1\<rparr>, [9])]"


section \<open>Word arithmetic of the length field\<close>

lemma unat_ucast_8_32: "unat (ucast (a :: uint8_t) :: uint32_t) = unat a"
proof -
  have "unat a < 2 ^ 8" using unsigned_less[of a] by simp
  then have "unat a < 2 ^ 32" by simp
  then show ?thesis by (simp add: unsigned_ucast_eq take_bit_nat_eq_self)
qed

lemma unat_ucast_32_64: "unat (ucast (a :: uint32_t) :: size_t) = unat a"
proof -
  have "unat a < 2 ^ 32" using unsigned_less[of a] by simp
  then have "unat a < 2 ^ 64" by simp
  then show ?thesis by (simp add: unsigned_ucast_eq take_bit_nat_eq_self)
qed

lemma ucast32_pos: "(0 < (ucast (n :: uint32_t) :: size_t)) = (n \<noteq> 0)"
  by (simp add: word_gt_0 flip: unat_eq_0 unat_ucast_32_64)

lemma byte_cons_value:
  fixes a :: uint8_t and w :: uint32_t
  assumes "unat w < 2 ^ 24"
  shows "unat (ucast a OR push_bit 8 w) = unat a + 256 * unat w"
proof -
  have disj: "(ucast a :: uint32_t) AND push_bit 8 w = 0"
    by (rule bit_word_eqI) (auto simp: bit_simps dest: bit_imp_le_length)
  have eq: "ucast a OR push_bit 8 w = (ucast a :: uint32_t) + push_bit 8 w"
    using disjunctive_add_eq_or[OF disj] by simp
  have pb: "unat (push_bit 8 w) = 256 * unat w"
    using assms by (simp add: push_bit_eq_mult unat_word_ariths)
  have lt: "unat a < 256" using unsigned_less[of a] by simp
  show ?thesis
    unfolding eq using pb lt assms by (simp add: unat_word_ariths unat_ucast_8_32)
qed

text \<open>The decoded length is the little-endian number of the four bytes.\<close>

lemma UINT32DECODE_value:
  assumes "UINT32DECODE (b0 # b1 # b2 # b3 # p) = Some (n, p')"
  shows "unat n = unat b0 + 256 * unat b1 + 65536 * unat b2 + 16777216 * unat b3 \<and> p' = p"
proof -
  have l0: "unat b0 < 256" "unat b1 < 256" "unat b2 < 256" "unat b3 < 256"
    using unsigned_less[of b0] unsigned_less[of b1] unsigned_less[of b2] unsigned_less[of b3]
    by simp_all
  let ?w3 = "ucast b3 :: uint32_t"
  let ?w2 = "ucast b2 OR push_bit 8 ?w3"
  let ?w1 = "ucast b1 OR push_bit 8 ?w2"
  have n: "n = ucast b0 OR push_bit 8 ?w1"
    using assms by (simp add: push_bit_or push_bit_push_bit ac_simps)
  have u3: "unat ?w3 = unat b3" by (simp add: unat_ucast_8_32)
  have u2: "unat ?w2 = unat b2 + 256 * unat b3"
    using byte_cons_value[of ?w3 b2] l0 u3 by simp
  have u1: "unat ?w1 = unat b1 + 256 * (unat b2 + 256 * unat b3)"
    using byte_cons_value[of ?w2 b1] l0 u2 by simp
  have "unat n = unat b0 + 256 * (unat b1 + 256 * (unat b2 + 256 * unat b3))"
    unfolding n using byte_cons_value[of ?w1 b0] l0 u1 by simp
  then show ?thesis using assms by simp
qed

text \<open>The two macros are inverse to each other on a 32-bit value.\<close>

lemma UINT32_roundtrip: "UINT32DECODE (UINT32ENCODE (n :: uint32_t) @ p) = Some (n, p)"
proof -
  let ?w = "(ucast (ucast n :: uint8_t) :: uint32_t)
          OR push_bit 8 (ucast (ucast (drop_bit 8 n) :: uint8_t))
          OR push_bit 16 (ucast (ucast (drop_bit 16 n) :: uint8_t))
          OR push_bit 24 (ucast (ucast (drop_bit 24 n) :: uint8_t))"
  have "?w = n"
  proof (rule bit_word_eqI)
    fix k
    assume "k < LENGTH(32)"
    then show "bit ?w k = bit n k"
      by (cases "k < 8"; cases "k < 16"; cases "k < 24") (auto simp: bit_simps)
  qed
  then show ?thesis by (simp add: UINT32ENCODE_def)
qed

section \<open>The location state machine: sizes and precision\<close>

lemma set_loc_lib_env_disk:
  "H5T__ref_set_loc lib_env ref_dt (Some file_A) H5T_LOC_DISK = (Inr True, ref_dt_on_disk)"
  by (simp add: H5T__ref_set_loc_def lib_env_def ref_dt_def ref_dt_on_disk_def file_A_def
        zeroed_href_def H5_SIZEOF_UINT32_T_def H5R_ENCODE_HEADER_SIZE_def
        H5VL_CONTAINER_INFO_VERSION_def Let_def)

text \<open>
  C10. After a successful location transition through a branch that assigns a size (every
  transition to Disk; a transition to Memory of an opaque, a legacy object or a legacy
  region reference), the precision is 8 times the size: as the \<^verbatim>\<open>size_t\<close> product the
  code computes, and as a product of numbers whenever the size is below \<open>2 ^ 61\<close>.
\<close>

theorem set_loc_precision:
  assumes "H5T__ref_set_loc env dt f loc = (Inr True, dt')" and "assigns_size dt loc"
  shows "atomic_prec dt' = 8 * shared_size dt' \<and>
         (unat (shared_size dt') < 2 ^ 61 \<longrightarrow> unat (atomic_prec dt') = 8 * unat (shared_size dt'))"
proof -
  have eq: "atomic_prec dt' = 8 * shared_size dt'"
    using assms
    by (auto simp: H5T__ref_set_loc_def assigns_size_def Let_def
             split: if_splits H5T_loc_t.splits option.splits)
  have "unat (8 * shared_size dt') = 8 * unat (shared_size dt')"
    if "unat (shared_size dt') < 2 ^ 61"
    using that by (simp add: unat_word_ariths)
  with eq show ?thesis by simp
qed

theorem set_loc_precision_witness:
  "H5T__ref_set_loc lib_env ref_dt (Some file_A) H5T_LOC_DISK = (Inr True, ref_dt_on_disk) \<and>
   assigns_size ref_dt H5T_LOC_DISK \<and>
   atomic_prec ref_dt_on_disk = 8 * shared_size ref_dt_on_disk \<and>
   unat (atomic_prec ref_dt_on_disk) = 8 * unat (shared_size ref_dt_on_disk)"
proof -
  have a: "assigns_size ref_dt H5T_LOC_DISK"
    by (simp add: assigns_size_def)
  have b: "unat (shared_size ref_dt_on_disk) < 2 ^ 61"
    by (simp add: ref_dt_on_disk_def)
  from set_loc_precision [OF set_loc_lib_env_disk a] b
  have "atomic_prec ref_dt_on_disk = 8 * shared_size ref_dt_on_disk \<and>
        unat (atomic_prec ref_dt_on_disk) = 8 * unat (shared_size ref_dt_on_disk)"
    by blast
  with set_loc_lib_env_disk a show ?thesis by blast
qed

text \<open>
  The invariant is kept by every call, whatever its result: a branch that assigns no size
  leaves size and precision as they were.
\<close>

lemma set_loc_keeps_precision:
  assumes "atomic_prec dt = 8 * shared_size dt"
  shows "atomic_prec (snd (H5T__ref_set_loc env dt f loc)) =
         8 * shared_size (snd (H5T__ref_set_loc env dt f loc))"
  using assms
  by (auto simp: H5T__ref_set_loc_def Let_def split: H5T_loc_t.splits option.splits)

text \<open>
  C2. A successful transition to Disk of a generic reference datatype (neither legacy
  object nor legacy region) has queried the container info of the file, has run the
  trial encode (no file name, no flags) on the zeroed reference of kind Object-v2 whose
  token size is the container's, stored in the 8-bit field of the reference, and has set
  the size to the maximum of 4 + header size + blob identifier width and that encode size.
\<close>

theorem set_loc_disk_generic_size:
  assumes "r_rtype dt \<noteq> H5R_OBJECT1" and "r_rtype dt \<noteq> H5R_DATASET_REGION1"
    and "H5T__ref_set_loc env dt fo H5T_LOC_DISK = (Inr True, dt')"
  shows "\<exists>f cont_info fixed_ref ref_encode_size.
           fo = Some f \<and>
           H5F__get_cont_info env f
             \<lparr>ci_version = H5VL_CONTAINER_INFO_VERSION, ci_feature_flags = 0,
              ci_token_size = 0, ci_blob_id_size = 0\<rparr> = Some cont_info \<and>
           fixed_ref = zeroed_href\<lparr>href_type := word_of_int H5R_OBJECT2,
                                   href_token_size := ucast (ci_token_size cont_info)\<rparr> \<and>
           (unat (ci_token_size cont_info) < 256 \<longrightarrow>
              unat (href_token_size fixed_ref) = unat (ci_token_size cont_info)) \<and>
           H5R__encode env None fixed_ref 0 = Some ref_encode_size \<and>
           shared_size dt' =
             max (of_nat H5_SIZEOF_UINT32_T + of_nat H5R_ENCODE_HEADER_SIZE
                    + ci_blob_id_size cont_info)
                 ref_encode_size"
proof -
  have narrow: "unat (ucast x :: uint8_t) = unat x" if "unat x < 256" for x :: size_t
    using that by (simp add: unsigned_ucast_eq take_bit_nat_eq_self)
  show ?thesis
    using assms
    by (auto simp: H5T__ref_set_loc_def Let_def narrow split: if_splits option.splits)
qed

theorem set_loc_disk_generic_size_witness:
  "r_rtype ref_dt \<noteq> H5R_OBJECT1 \<and> r_rtype ref_dt \<noteq> H5R_DATASET_REGION1 \<and>
   H5T__ref_set_loc lib_env ref_dt (Some file_A) H5T_LOC_DISK = (Inr True, ref_dt_on_disk) \<and>
   shared_size ref_dt_on_disk = max (4 + 2 + 12) 19"
proof -
  have a: "r_rtype ref_dt \<noteq> H5R_OBJECT1" and b: "r_rtype ref_dt \<noteq> H5R_DATASET_REGION1"
    by (simp_all add: ref_dt_def)
  from set_loc_disk_generic_size [OF a b set_loc_lib_env_disk] a b set_loc_lib_env_disk
  show ?thesis by (simp add: ref_dt_on_disk_def)
qed


section \<open>The location state machine: the undetermined location and the no-op\<close>

text \<open>
  C6, as the claim states it, fails: a transition to the undetermined location does not
  touch the width. The descriptor \<open>ref_dt\<close> keeps its size 64 and its precision.
\<close>

theorem set_loc_badloc_keeps_width_counterexample:
  "fst (H5T__ref_set_loc lib_env ref_dt None H5T_LOC_BADLOC) = Inr True \<and>
   shared_size (snd (H5T__ref_set_loc lib_env ref_dt None H5T_LOC_BADLOC)) = 64 \<and>
   shared_size (snd (H5T__ref_set_loc lib_env ref_dt None H5T_LOC_BADLOC)) \<noteq> 0 \<and>
   atomic_prec (snd (H5T__ref_set_loc lib_env ref_dt None H5T_LOC_BADLOC)) = 512"
  by (simp add: H5T__ref_set_loc_def ref_dt_def)

text \<open>
  C6, amended. A transition to the undetermined location never fails and leaves size and
  precision as they were. When it reports a change, the location is undetermined and the
  container and the three converter functions are null; it reports no change only when
  the descriptor was already undetermined with the container given, and then the
  descriptor is left as it is.
\<close>

theorem set_loc_badloc:
  "\<exists>changed dt'.
     H5T__ref_set_loc env dt f H5T_LOC_BADLOC = (Inr changed, dt') \<and>
     shared_size dt' = shared_size dt \<and> atomic_prec dt' = atomic_prec dt \<and>
     r_loc dt' = H5T_LOC_BADLOC \<and>
     (changed \<longrightarrow>
        r_f dt' = None \<and> r_getsize dt' = None \<and> r_read dt' = None \<and> r_write dt' = None) \<and>
     (\<not> changed \<longrightarrow> r_loc dt = H5T_LOC_BADLOC \<and> r_f dt = f \<and> dt' = dt)"
  by (auto simp: H5T__ref_set_loc_def)

theorem set_loc_badloc_witness:
  "H5T__ref_set_loc lib_env ref_dt_on_disk None H5T_LOC_BADLOC =
     (Inr True, ref_dt_on_disk\<lparr>r_loc := H5T_LOC_BADLOC, r_f := None, r_getsize := None,
                               r_read := None, r_write := None\<rparr>) \<and>
   shared_size (snd (H5T__ref_set_loc lib_env ref_dt_on_disk None H5T_LOC_BADLOC)) = 19"
proof -
  have ev: "H5T__ref_set_loc lib_env ref_dt_on_disk None H5T_LOC_BADLOC =
     (Inr True, ref_dt_on_disk\<lparr>r_loc := H5T_LOC_BADLOC, r_f := None, r_getsize := None,
                               r_read := None, r_write := None\<rparr>)"
    by (simp add: H5T__ref_set_loc_def ref_dt_on_disk_def ref_dt_def)
  from set_loc_badloc [of lib_env ref_dt_on_disk None]
  have "shared_size (snd (H5T__ref_set_loc lib_env ref_dt_on_disk None H5T_LOC_BADLOC))
          = shared_size ref_dt_on_disk"
    by auto
  then show ?thesis
    using ev by (simp add: ref_dt_on_disk_def)
qed

text \<open>
  C7, as the claim states it, fails in its second half: when the container query of a
  generic transition to Disk fails, the new location and container are already stored in
  the descriptor, and the operation returns the failure, not the "changed" result.
\<close>

theorem set_loc_changed_on_failure_counterexample:
  "H5T__ref_set_loc lib_env_no_info ref_dt (Some file_A) H5T_LOC_DISK =
     (Inl (H5E H5E_DATATYPE H5E_CANTGET), ref_dt\<lparr>r_loc := H5T_LOC_DISK, r_f := Some file_A\<rparr>) \<and>
   ref_dt\<lparr>r_loc := H5T_LOC_DISK, r_f := Some file_A\<rparr> \<noteq> ref_dt \<and>
   fst (H5T__ref_set_loc lib_env_no_info ref_dt (Some file_A) H5T_LOC_DISK) \<noteq> Inr True"
  by (simp add: H5T__ref_set_loc_def lib_env_no_info_def lib_env_def ref_dt_def
        H5VL_CONTAINER_INFO_VERSION_def)

text \<open>
  C7, amended. A call whose location and container are those of the descriptor returns
  "unchanged" and leaves the whole descriptor (function triple, width, location,
  container) as it was; and when the descriptor does change and the operation does not
  fail, the result is "changed".
\<close>

theorem set_loc_noop_or_changed:
  "(loc = r_loc dt \<and> f = r_f dt \<longrightarrow> H5T__ref_set_loc env dt f loc = (Inr False, dt)) \<and>
   (\<forall>changed dt'. H5T__ref_set_loc env dt f loc = (Inr changed, dt') \<and> dt' \<noteq> dt \<longrightarrow> changed)"
  by (auto simp: H5T__ref_set_loc_def Let_def split: if_splits H5T_loc_t.splits option.splits)

theorem set_loc_noop_or_changed_witness:
  "H5T__ref_set_loc lib_env ref_dt_on_disk (Some file_A) H5T_LOC_DISK = (Inr False, ref_dt_on_disk) \<and>
   H5T__ref_set_loc lib_env ref_dt (Some file_A) H5T_LOC_DISK = (Inr True, ref_dt_on_disk) \<and>
   ref_dt_on_disk \<noteq> ref_dt"
proof -
  have same: "H5T_LOC_DISK = r_loc ref_dt_on_disk \<and> Some file_A = r_f ref_dt_on_disk"
    by (simp add: ref_dt_on_disk_def)
  have diff: "ref_dt_on_disk \<noteq> ref_dt"
    by (simp add: ref_dt_on_disk_def ref_dt_def)
  from set_loc_noop_or_changed [of H5T_LOC_DISK ref_dt_on_disk "Some file_A" lib_env] same
  have "H5T__ref_set_loc lib_env ref_dt_on_disk (Some file_A) H5T_LOC_DISK = (Inr False, ref_dt_on_disk)"
    by blast
  with set_loc_lib_env_disk diff show ?thesis by blast
qed


section \<open>The size queries\<close>

text \<open>
  C3. The disk-side size query reads the kind byte and the flags byte at the front of
  the buffer. A kind outside the enumerated range fails with \<^verbatim>\<open>H5E_BADVALUE\<close>. A valid
  kind with the external flag clear and the kind Object-v2 returns the source size passed
  in and sets the direct-copy flag. Every other valid case returns the little-endian
  number in the four bytes after the flags byte plus the header size, and leaves the
  direct-copy flag as the caller set it.
\<close>

theorem disk_getsize_spec:
  "(uint kind \<le> H5R_BADTYPE \<or> H5R_MAXTYPE \<le> uint kind \<longrightarrow>
      H5T__ref_disk_getsize (kind # bytes) src_size dst_copy
        = (Inl (H5E H5E_ARGS H5E_BADVALUE), dst_copy)) \<and>
   (H5R_BADTYPE < uint kind \<and> uint kind < H5R_MAXTYPE \<longrightarrow>
      (((ucast flags :: uint32_t) AND H5R_IS_EXTERNAL) = 0 \<and> uint kind = H5R_OBJECT2 \<longrightarrow>
         H5T__ref_disk_getsize (kind # flags # bytes) src_size dst_copy = (Inr src_size, True)) \<and>
      (\<not> (((ucast flags :: uint32_t) AND H5R_IS_EXTERNAL) = 0 \<and> uint kind = H5R_OBJECT2) \<longrightarrow>
         (\<exists>n. H5T__ref_disk_getsize (kind # flags # b0 # b1 # b2 # b3 # bytes) src_size dst_copy
                 = (Inr n, dst_copy) \<and>
              unat n = unat b0 + 256 * unat b1 + 65536 * unat b2 + 16777216 * unat b3
                         + H5R_ENCODE_HEADER_SIZE)))"
proof -
  obtain n where n: "UINT32DECODE (b0 # b1 # b2 # b3 # bytes) = Some (n, bytes)"
    by simp
  have v: "unat n = unat b0 + 256 * unat b1 + 65536 * unat b2 + 16777216 * unat b3"
    using UINT32DECODE_value [OF n] by simp
  have "unat n < 2 ^ 32" using unsigned_less [of n] by simp
  then have s: "unat (ucast n + 2 :: size_t) = unat n + 2"
    by (simp add: unat_word_ariths unat_ucast_32_64)
  have bad: "H5T__ref_disk_getsize (kind # bytes) src_size dst_copy
               = (Inl (H5E H5E_ARGS H5E_BADVALUE), dst_copy)"
    if "uint kind \<le> H5R_BADTYPE \<or> H5R_MAXTYPE \<le> uint kind"
    using that by (simp add: H5T__ref_disk_getsize_def)
  have direct: "H5T__ref_disk_getsize (kind # flags # bytes) src_size dst_copy = (Inr src_size, True)"
    if "H5R_BADTYPE < uint kind \<and> uint kind < H5R_MAXTYPE"
      and "((ucast flags :: uint32_t) AND H5R_IS_EXTERNAL) = 0 \<and> uint kind = H5R_OBJECT2"
    using that by (simp add: H5T__ref_disk_getsize_def)
  have decode: "H5T__ref_disk_getsize (kind # flags # b0 # b1 # b2 # b3 # bytes) src_size dst_copy
                  = (Inr (ucast n + 2), dst_copy)"
    if "H5R_BADTYPE < uint kind \<and> uint kind < H5R_MAXTYPE"
      and "\<not> (((ucast flags :: uint32_t) AND H5R_IS_EXTERNAL) = 0 \<and> uint kind = H5R_OBJECT2)"
    using that n
    by (auto simp: H5T__ref_disk_getsize_def H5R_ENCODE_HEADER_SIZE_def Let_def
          simp del: UINT32DECODE.simps)
  show ?thesis
    using bad direct decode v s by (simp add: H5R_ENCODE_HEADER_SIZE_def)
qed

theorem disk_getsize_spec_witness:
  "H5T__ref_disk_getsize [9, 0, 5, 0, 0, 0] 10 False = (Inl (H5E H5E_ARGS H5E_BADVALUE), False) \<and>
   H5T__ref_disk_getsize [2, 0, 5, 0, 0, 0] 10 False = (Inr 10, True) \<and>
   (\<exists>n. H5T__ref_disk_getsize [2, 1, 5, 1, 0, 0] 10 False = (Inr n, False) \<and> unat n = 263) \<and>
   (\<exists>n. H5T__ref_disk_getsize [3, 0, 5, 1, 0, 0] 10 False = (Inr n, False) \<and> unat n = 263)"
proof -
  have e: "(ucast (1 :: uint8_t) :: uint32_t) AND H5R_IS_EXTERNAL \<noteq> 0"
          "(ucast (0 :: uint8_t) :: uint32_t) AND H5R_IS_EXTERNAL = 0"
    by (simp_all add: H5R_IS_EXTERNAL_def)
  from disk_getsize_spec [of 9 "[0, 5, 0, 0, 0]" 10 False 0 5 0 0 0]
  have w1: "H5T__ref_disk_getsize [9, 0, 5, 0, 0, 0] 10 False
              = (Inl (H5E H5E_ARGS H5E_BADVALUE), False)"
    by simp
  from disk_getsize_spec [of 2 "[5, 0, 0, 0]" 10 False 0 5 0 0 0] e
  have w2: "H5T__ref_disk_getsize [2, 0, 5, 0, 0, 0] 10 False = (Inr 10, True)"
    by simp
  from disk_getsize_spec [of 2 "[]" 10 False 1 5 1 0 0] e
  have w3: "\<exists>n. H5T__ref_disk_getsize [2, 1, 5, 1, 0, 0] 10 False = (Inr n, False) \<and> unat n = 263"
    by (simp add: H5R_ENCODE_HEADER_SIZE_def)
  from disk_getsize_spec [of 3 "[]" 10 False 0 5 1 0 0]
  have w4: "\<exists>n. H5T__ref_disk_getsize [3, 0, 5, 1, 0, 0] 10 False = (Inr n, False) \<and> unat n = 263"
    by (simp add: H5R_ENCODE_HEADER_SIZE_def)
  from w1 w2 w3 w4 show ?thesis by blast
qed

text \<open>
  C4. Let the location identifier of the handle resolve to the file \<open>src_f\<close>. When
  \<open>src_f\<close> shares its container with the destination and the cached encode size is not
  zero, the memory-side size query returns the cached size and makes no call (no trial
  encode); it sets the direct-copy flag when the kind is Object-v2 and leaves it alone
  otherwise, so a flag that came in false goes out true exactly for Object-v2. When the
  handle is external or the cached size is zero, the query runs exactly one trial encode
  (null buffer) with the external flag as computed, and its result is the encode's: the
  size, or \<^verbatim>\<open>H5E_CANTENCODE\<close>; the direct-copy flag is left alone.
\<close>

theorem mem_getsize_spec:
  assumes "H5VL_vol_object env (href_loc_id src_ref) = Some v"
    and "H5VL_object_data env v = Some src_f"
  shows
    "(f_shared src_f = f_shared dst_f \<and> href_encode_size src_ref \<noteq> 0 \<longrightarrow>
        H5T__ref_mem_getsize env src_ref dst_f dst_copy
          = (Inr (ucast (href_encode_size src_ref)),
             dst_copy \<or> href_type src_ref = word_of_int H5R_OBJECT2, []) \<and>
        unat (ucast (href_encode_size src_ref) :: size_t) = unat (href_encode_size src_ref) \<and>
        fst (snd (H5T__ref_mem_getsize env src_ref dst_f False))
          = (href_type src_ref = word_of_int H5R_OBJECT2)) \<and>
     (f_shared src_f \<noteq> f_shared dst_f \<or> href_encode_size src_ref = 0 \<longrightarrow>
        filter is_encode_call (snd (snd (H5T__ref_mem_getsize env src_ref dst_f dst_copy)))
          = [Call_encode (Some (f_actual_name src_f)) src_ref
               (if f_shared src_f \<noteq> f_shared dst_f then H5R_IS_EXTERNAL else 0)] \<and>
        fst (H5T__ref_mem_getsize env src_ref dst_f dst_copy)
          = (case H5R__encode env (Some (f_actual_name src_f)) src_ref
                    (if f_shared src_f \<noteq> f_shared dst_f then H5R_IS_EXTERNAL else 0) of
               None \<Rightarrow> Inl (H5E H5E_REFERENCE H5E_CANTENCODE)
             | Some n \<Rightarrow> Inr n) \<and>
        fst (snd (H5T__ref_mem_getsize env src_ref dst_f dst_copy)) = dst_copy)"
proof -
  have ext: "H5R_IS_EXTERNAL \<noteq> 0"
    by (simp add: H5R_IS_EXTERNAL_def)
  have cached: "H5T__ref_mem_getsize env src_ref dst_f c
          = (Inr (ucast (href_encode_size src_ref)),
             c \<or> href_type src_ref = word_of_int H5R_OBJECT2, [])"
    if "f_shared src_f = f_shared dst_f \<and> href_encode_size src_ref \<noteq> 0" for c
    using that assms by (simp add: H5T__ref_mem_getsize_def)
  have trial: "H5T__ref_mem_getsize env src_ref dst_f dst_copy =
      (case H5R__encode env (Some (f_actual_name src_f)) src_ref
                    (if f_shared src_f \<noteq> f_shared dst_f then H5R_IS_EXTERNAL else 0) of
               None \<Rightarrow> Inl (H5E H5E_REFERENCE H5E_CANTENCODE)
             | Some n \<Rightarrow> Inr n,
       dst_copy,
       (if href_type src_ref = word_of_int H5R_DATASET_REGION2
        then [Call_set_libver_bounds dst_f] else [])
       @ [Call_encode (Some (f_actual_name src_f)) src_ref
               (if f_shared src_f \<noteq> f_shared dst_f then H5R_IS_EXTERNAL else 0)])"
    if "f_shared src_f \<noteq> f_shared dst_f \<or> href_encode_size src_ref = 0"
    using that assms ext
    by (auto simp: H5T__ref_mem_getsize_def Let_def split: option.splits)
  show ?thesis
    using cached trial by (simp add: unat_ucast_32_64)
qed

theorem mem_getsize_spec_witness:
  "H5VL_vol_object lib_env (href_loc_id obj_ref) = Some 70 \<and>
   H5VL_object_data lib_env 70 = Some file_A \<and>
   H5T__ref_mem_getsize lib_env obj_ref file_A False = (Inr 19, True, []) \<and>
   H5R__encode lib_env (Some (f_actual_name file_A)) obj_ref 0 = Some 19 \<and>
   filter is_encode_call (snd (snd (H5T__ref_mem_getsize lib_env obj_ref file_B False)))
     = [Call_encode (Some ''a.h5'') obj_ref H5R_IS_EXTERNAL] \<and>
   fst (H5T__ref_mem_getsize lib_env obj_ref file_B False) = Inr 23"
proof -
  have a: "H5VL_vol_object lib_env (href_loc_id obj_ref) = Some 70"
    by (simp add: lib_env_def obj_ref_def)
  have b: "H5VL_object_data lib_env 70 = Some file_A"
    by (simp add: lib_env_def)
  have c: "f_shared file_A \<noteq> f_shared file_B" "href_encode_size obj_ref \<noteq> 0"
          "href_type obj_ref = word_of_int H5R_OBJECT2" "f_actual_name file_A = ''a.h5''"
    by (simp_all add: file_A_def file_B_def obj_ref_def)
  have d: "H5R__encode lib_env (Some (f_actual_name file_A)) obj_ref 0 = Some 19"
          "H5R__encode lib_env (Some (f_actual_name file_A)) obj_ref H5R_IS_EXTERNAL = Some 23"
    by (simp_all add: lib_env_def obj_ref_def H5R_IS_EXTERNAL_def)
  have e: "(ucast (href_encode_size obj_ref) :: size_t) = 19"
    by (simp add: obj_ref_def)
  from mem_getsize_spec [OF a b, of file_A False] c e
  have w1: "H5T__ref_mem_getsize lib_env obj_ref file_A False = (Inr 19, True, [])"
    by simp
  from mem_getsize_spec [OF a b, of file_B False] c d
  have w2: "filter is_encode_call (snd (snd (H5T__ref_mem_getsize lib_env obj_ref file_B False)))
              = [Call_encode (Some ''a.h5'') obj_ref H5R_IS_EXTERNAL] \<and>
            fst (H5T__ref_mem_getsize lib_env obj_ref file_B False) = Inr 23"
    by simp
  from a b d w1 w2 show ?thesis by blast
qed


section \<open>The disk-side converter and the blob store\<close>

text \<open>
  C5. A generic disk-side read whose header copy is within both buffers hands the blob
  identifier of the record to the blob store. When the store cannot get the blob, the
  read fails with \<^verbatim>\<open>H5E_CANTGET\<close>. When the store returns a payload, the read succeeds
  only if the returned length is the destination size minus the header size (in
  \<^verbatim>\<open>size_t\<close> arithmetic); with any other length it fails with the size-mismatch error
  (\<^verbatim>\<open>H5E_CANTDECODE\<close>, "Expected data size does not match").
\<close>

theorem disk_read_size_mismatch:
  assumes "H5R_ENCODE_HEADER_SIZE \<le> length src_buf"
    and "H5R_ENCODE_HEADER_SIZE \<le> length dst_buf"
  shows
    "(\<forall>s1. blob_get (cls src_f) (record_blob_id src_buf) src_f
              (drop H5R_ENCODE_HEADER_SIZE dst_buf) dst_size s = (None, s1) \<longrightarrow>
        fst (H5T__ref_disk_read cls src_f src_buf src_size dst_buf dst_size s)
          = Inl (H5E H5E_DATATYPE H5E_CANTGET)) \<and>
     (\<forall>payload n s1.
        blob_get (cls src_f) (record_blob_id src_buf) src_f
              (drop H5R_ENCODE_HEADER_SIZE dst_buf) dst_size s = (Some (payload, n), s1) \<longrightarrow>
        fst (H5T__ref_disk_read cls src_f src_buf src_size dst_buf dst_size s)
          = (if n \<noteq> dst_size - of_nat H5R_ENCODE_HEADER_SIZE
             then Inl (H5E H5E_REFERENCE H5E_CANTDECODE) else Inr ()))"
  using assms
  by (auto simp: H5T__ref_disk_read_def Let_def record_blob_id_def
        H5R_ENCODE_HEADER_SIZE_def H5_SIZEOF_UINT32_T_def)

theorem disk_read_size_mismatch_witness:
  "fst (H5T__ref_disk_read list_store_cls file_A old_record 10 [0, 0, 0, 0, 0, 0] 6 old_store)
     = Inl (H5E H5E_REFERENCE H5E_CANTDECODE) \<and>
   fst (H5T__ref_disk_read list_store_cls file_A old_record 10 [0, 0, 0, 0, 0] 5 old_store)
     = Inr () \<and>
   fst (H5T__ref_disk_read list_store_cls file_A [3, 0, 3, 0, 0, 0, 2, 0, 0, 0] 10 [0, 0, 0, 0, 0] 5 old_store)
     = Inl (H5E H5E_DATATYPE H5E_CANTGET)"
proof -
  have l: "H5R_ENCODE_HEADER_SIZE \<le> length old_record"
          "H5R_ENCODE_HEADER_SIZE \<le> length [3, 0, 3, 0, 0, 0, 2, 0, 0, 0 :: uint8_t]"
          "H5R_ENCODE_HEADER_SIZE \<le> length [0, 0, 0, 0, 0, 0 :: uint8_t]"
          "H5R_ENCODE_HEADER_SIZE \<le> length [0, 0, 0, 0, 0 :: uint8_t]"
    by (simp_all add: H5R_ENCODE_HEADER_SIZE_def old_record_def)
  have g6: "blob_get (list_store_cls file_A) (record_blob_id old_record) file_A
              (drop H5R_ENCODE_HEADER_SIZE [0, 0, 0, 0, 0, 0]) 6 old_store
            = (Some ([0xAA, 0xBB, 0xCC, 0], 3), old_store)"
    by (simp add: list_store_cls_def list_store_lookup_def record_blob_id_def old_record_def
          old_store_def H5R_ENCODE_HEADER_SIZE_def H5_SIZEOF_UINT32_T_def)
  have g5: "blob_get (list_store_cls file_A) (record_blob_id old_record) file_A
              (drop H5R_ENCODE_HEADER_SIZE [0, 0, 0, 0, 0]) 5 old_store
            = (Some ([0xAA, 0xBB, 0xCC], 3), old_store)"
    by (simp add: list_store_cls_def list_store_lookup_def record_blob_id_def old_record_def
          old_store_def H5R_ENCODE_HEADER_SIZE_def H5_SIZEOF_UINT32_T_def)
  have g0: "blob_get (list_store_cls file_A) (record_blob_id [3, 0, 3, 0, 0, 0, 2, 0, 0, 0]) file_A
              (drop H5R_ENCODE_HEADER_SIZE [0, 0, 0, 0, 0]) 5 old_store
            = (None, old_store)"
    by (simp add: list_store_cls_def list_store_lookup_def record_blob_id_def
          old_store_def H5R_ENCODE_HEADER_SIZE_def H5_SIZEOF_UINT32_T_def)
  from disk_read_size_mismatch [OF l(1) l(3), of list_store_cls file_A 6 old_store 10] g6
  have w1: "fst (H5T__ref_disk_read list_store_cls file_A old_record 10 [0, 0, 0, 0, 0, 0] 6 old_store)
              = Inl (H5E H5E_REFERENCE H5E_CANTDECODE)"
    by (simp add: H5R_ENCODE_HEADER_SIZE_def)
  from disk_read_size_mismatch [OF l(1) l(4), of list_store_cls file_A 5 old_store 10] g5
  have w2: "fst (H5T__ref_disk_read list_store_cls file_A old_record 10 [0, 0, 0, 0, 0] 5 old_store)
              = Inr ()"
    by (simp add: H5R_ENCODE_HEADER_SIZE_def)
  from disk_read_size_mismatch [OF l(2) l(4), of list_store_cls file_A 5 old_store 10] g0
  have w3: "fst (H5T__ref_disk_read list_store_cls file_A [3, 0, 3, 0, 0, 0, 2, 0, 0, 0] 10
                   [0, 0, 0, 0, 0] 5 old_store)
              = Inl (H5E H5E_DATATYPE H5E_CANTGET)"
    by simp
  from w1 w2 w3 show ?thesis by blast
qed

text \<open>
  The order of the blob calls of a write over a previous record: one
  \<^verbatim>\<open>H5VL_BLOB_DELETE\<close> first, and the put after it, only when the delete succeeded and
  the header and length fit the buffers. The delete is issued on the bytes of the
  previous record from offset 4 on.
\<close>

lemma disk_write_delete_then_put:
  "snd (snd (snd (H5T__ref_disk_write cls src_buf src_size dst_f dst_buf dst_size (Some bg) s)))
     = [Call_blob_specific (drop 4 bg) H5VL_BLOB_DELETE dst_f] \<or>
   snd (snd (snd (H5T__ref_disk_write cls src_buf src_size dst_f dst_buf dst_size (Some bg) s)))
     = [Call_blob_specific (drop 4 bg) H5VL_BLOB_DELETE dst_f,
        Call_blob_put (drop H5R_ENCODE_HEADER_SIZE src_buf)
          (src_size - of_nat H5R_ENCODE_HEADER_SIZE) dst_f]"
  by (auto simp: H5T__ref_disk_write_def Let_def H5_SIZEOF_UINT32_T_def
           split: prod.splits bool.splits option.splits)

lemma disk_write_no_put_after_failed_delete:
  assumes "fst (blob_specific (cls dst_f) (drop 4 bg) H5VL_BLOB_DELETE dst_f s) = False"
  shows "fst (H5T__ref_disk_write cls src_buf src_size dst_f dst_buf dst_size (Some bg) s)
           = Inl (H5E H5E_DATATYPE H5E_CANTREMOVE) \<and>
         snd (snd (snd (H5T__ref_disk_write cls src_buf src_size dst_f dst_buf dst_size (Some bg) s)))
           = [Call_blob_specific (drop 4 bg) H5VL_BLOB_DELETE dst_f]"
  using assms
  by (auto simp: H5T__ref_disk_write_def Let_def H5_SIZEOF_UINT32_T_def
           split: prod.splits bool.splits option.splits)

text \<open>
  The record layout the two converters agree on: a read hands the bytes at
  \<open>record_blob_id\<close> of the record to the blob store, and a successful write leaves there
  what the put stored, behind the header copied from the source.
\<close>

lemma disk_read_gets_record_blob_id:
  assumes "H5R_ENCODE_HEADER_SIZE \<le> length src_buf"
    and "H5R_ENCODE_HEADER_SIZE \<le> length dst_buf"
  shows "snd (snd (snd (H5T__ref_disk_read cls src_f src_buf src_size dst_buf dst_size s)))
           = [Call_blob_get (record_blob_id src_buf) src_f]"
  using assms
  by (auto simp: H5T__ref_disk_read_def Let_def record_blob_id_def
        H5R_ENCODE_HEADER_SIZE_def H5_SIZEOF_UINT32_T_def split: prod.splits option.splits)

lemma disk_write_stores_record_blob_id:
  assumes "H5T__ref_disk_write cls src_buf src_size dst_f dst_buf dst_size bg s
             = (Inr (), dst', s', calls)"
  shows "\<exists>ident s1. fst (blob_put (cls dst_f) (drop H5R_ENCODE_HEADER_SIZE src_buf)
                          (src_size - of_nat H5R_ENCODE_HEADER_SIZE) dst_f ident s1)
                     = Some (record_blob_id dst') \<and>
                   take H5R_ENCODE_HEADER_SIZE dst' = take H5R_ENCODE_HEADER_SIZE src_buf"
  using assms
  apply (auto simp: H5T__ref_disk_write_def Let_def record_blob_id_def UINT32ENCODE_def
        H5R_ENCODE_HEADER_SIZE_def H5_SIZEOF_UINT32_T_def
        split: prod.splits option.splits bool.splits if_splits)
   apply (metis fst_conv)
  apply (metis fst_conv)
  done

text \<open>The same on the list store: a record written, and read back.\<close>

lemma old_record_written:
  "H5T__ref_disk_write list_store_cls [3, 0, 0xAA, 0xBB, 0xCC] 5 file_A
       [0, 0, 0, 0, 0, 0, 0, 0, 0, 0] 10 None []
     = (Inr (), old_record, old_store, [Call_blob_put [0xAA, 0xBB, 0xCC] 3 file_A])"
  by (simp add: H5T__ref_disk_write_def list_store_cls_def old_record_def old_store_def
        H5R_ENCODE_HEADER_SIZE_def H5_SIZEOF_UINT32_T_def UINT32ENCODE_def Let_def)

lemma old_record_read:
  "H5T__ref_disk_read list_store_cls file_A old_record 10 [0, 0, 0, 0, 0] 5 old_store
     = (Inr (), [3, 0, 0xAA, 0xBB, 0xCC], old_store,
        [Call_blob_get (record_blob_id old_record) file_A])"
  by (simp add: H5T__ref_disk_read_def list_store_cls_def list_store_lookup_def old_record_def
        old_store_def record_blob_id_def H5R_ENCODE_HEADER_SIZE_def H5_SIZEOF_UINT32_T_def Let_def)

text \<open>
  C1 does not hold of the code: the delete of a write over a previous record is not issued
  against the blob locator of that record. The length field lies after the 2-byte header
  and the blob identifier after the length (where the write stores it and the read looks
  for it), and the write skips 4 bytes of the previous record only. Writing over
  \<open>old_record\<close>, whose blob is number 1 of the store, the delete is issued on the last two
  bytes of the length and the first bytes of the identifier; the list store knows no such
  blob, the write fails and nothing is put, though the delete of the identifier itself
  succeeds.
\<close>

theorem disk_write_delete_misses_blob_id:
  "H5T__ref_disk_write list_store_cls [3, 0, 0xDD, 0xEE] 4 file_A old_record 10
       (Some old_record) old_store
     = (Inl (H5E H5E_DATATYPE H5E_CANTREMOVE), old_record, old_store,
        [Call_blob_specific [0, 0, 1, 0, 0, 0] H5VL_BLOB_DELETE file_A]) \<and>
   drop H5R_ENCODE_HEADER_SIZE old_record = [3, 0, 0, 0, 1, 0, 0, 0] \<and>
   record_blob_id old_record = [1, 0, 0, 0] \<and>
   blob_specific (list_store_cls file_A) (record_blob_id old_record) H5VL_BLOB_DELETE file_A old_store
     = (True, [None])"
  by (simp add: H5T__ref_disk_write_def list_store_cls_def list_store_lookup_def old_record_def
        old_store_def record_blob_id_def H5R_ENCODE_HEADER_SIZE_def H5_SIZEOF_UINT32_T_def Let_def)


section \<open>The blob callbacks of the native connector\<close>

lemma le_bytes_8_zero: "le_bytes 8 0 = [0, 0, 0, 0, 0, 0, 0, 0]"
  by (simp add: numeral_eq_Suc)

lemma heap_env_encode_zero: "H5F_addr_encode heap_env file_A 0 = [0, 0, 0, 0, 0, 0, 0, 0]"
  by (simp add: heap_env_def file_A_def le_bytes_8_zero)

lemma heap_env_codec_zero:
  "H5F_addr_decode heap_env file_A (H5F_addr_encode heap_env file_A 0 @ bytes) = Some (0, bytes)"
  unfolding heap_env_encode_zero by (simp add: heap_env_def file_A_def)

text \<open>
  C8, as the claim states it, fails: the delete looks at the length prefix first. A
  locator whose length prefix is 0 and whose address is 5 is left alone, although the heap
  holds the object at that address: no removal is asked of the heap.
\<close>

theorem native_blob_delete_zero_length_counterexample:
  "H5F_addr_decode heap_env file_A (drop 4 [0, 0, 0, 0, 5, 0, 0, 0, 0, 0, 0, 0, 1, 0, 0, 0])
     = Some (5, [1, 0, 0, 0]) \<and>
   map_of one_heap \<lparr>hg_addr = 5, hg_idx = 1\<rparr> = Some [9] \<and>
   H5VL__native_blob_specific heap_env [0, 0, 0, 0, 5, 0, 0, 0, 0, 0, 0, 0, 1, 0, 0, 0]
       H5VL_BLOB_DELETE file_A one_heap
     = (Inr Out_nothing, one_heap, [])"
  by (simp add: H5VL__native_blob_specific_def heap_env_def file_A_def one_heap_def)

text \<open>
  C8, amended. On a locator that holds its 4-byte length prefix, the delete is a no-op
  success when the prefix is 0 and when the embedded address is 0. When both are not 0,
  it asks the heap to remove the entry (address, index) of the locator, exactly once, and
  fails with \<^verbatim>\<open>H5E_CANTREMOVE\<close> when the removal fails.
\<close>

theorem native_blob_delete:
  assumes "UINT32DECODE vl = Some (n, vl1)"
  shows
    "(n = 0 \<longrightarrow>
        H5VL__native_blob_specific env vl H5VL_BLOB_DELETE f h = (Inr Out_nothing, h, [])) \<and>
     (\<forall>addr vl2 idx vl3.
        n \<noteq> 0 \<and> H5F_addr_decode env f vl1 = Some (addr, vl2) \<and> UINT32DECODE vl2 = Some (idx, vl3)
        \<longrightarrow>
          (addr = 0 \<longrightarrow>
             H5VL__native_blob_specific env vl H5VL_BLOB_DELETE f h = (Inr Out_nothing, h, [])) \<and>
          (addr \<noteq> 0 \<longrightarrow>
             H5VL__native_blob_specific env vl H5VL_BLOB_DELETE f h =
               (if fst (H5HG_remove env f \<lparr>hg_addr = addr, hg_idx = ucast idx\<rparr> h)
                then Inr Out_nothing else Inl (H5E H5E_VOL H5E_CANTREMOVE),
                snd (H5HG_remove env f \<lparr>hg_addr = addr, hg_idx = ucast idx\<rparr> h),
                [Call_HG_remove f \<lparr>hg_addr = addr, hg_idx = ucast idx\<rparr>])))"
proof -
  have zero: "H5VL__native_blob_specific env vl H5VL_BLOB_DELETE f h = (Inr Out_nothing, h, [])"
    if "n = 0"
    using that assms by (simp add: H5VL__native_blob_specific_def)
  have nil: "H5VL__native_blob_specific env vl H5VL_BLOB_DELETE f h = (Inr Out_nothing, h, [])"
    if "n \<noteq> 0" and "H5F_addr_decode env f vl1 = Some (0, vl2)"
      and "UINT32DECODE vl2 = Some (idx, vl3)" for vl2 idx vl3
    using that assms by (simp add: H5VL__native_blob_specific_def ucast32_pos)
  have live: "H5VL__native_blob_specific env vl H5VL_BLOB_DELETE f h =
               (if fst (H5HG_remove env f \<lparr>hg_addr = addr, hg_idx = ucast idx\<rparr> h)
                then Inr Out_nothing else Inl (H5E H5E_VOL H5E_CANTREMOVE),
                snd (H5HG_remove env f \<lparr>hg_addr = addr, hg_idx = ucast idx\<rparr> h),
                [Call_HG_remove f \<lparr>hg_addr = addr, hg_idx = ucast idx\<rparr>])"
    if "n \<noteq> 0" and "H5F_addr_decode env f vl1 = Some (addr, vl2)"
      and "UINT32DECODE vl2 = Some (idx, vl3)" and "addr \<noteq> 0" for addr vl2 idx vl3
    using that assms
    by (auto simp: H5VL__native_blob_specific_def ucast32_pos word_neq_0_conv Let_def
             split: prod.splits bool.splits)
  show ?thesis
    using zero nil live by blast
qed

theorem native_blob_delete_witness:
  "H5VL__native_blob_specific heap_env [1, 0, 0, 0, 5, 0, 0, 0, 0, 0, 0, 0, 1, 0, 0, 0]
       H5VL_BLOB_DELETE file_A one_heap
     = (Inr Out_nothing, [], [Call_HG_remove file_A \<lparr>hg_addr = 5, hg_idx = 1\<rparr>]) \<and>
   H5VL__native_blob_specific heap_env [1, 0, 0, 0, 5, 0, 0, 0, 0, 0, 0, 0, 2, 0, 0, 0]
       H5VL_BLOB_DELETE file_A one_heap
     = (Inl (H5E H5E_VOL H5E_CANTREMOVE), one_heap,
        [Call_HG_remove file_A \<lparr>hg_addr = 5, hg_idx = 2\<rparr>]) \<and>
   H5VL__native_blob_specific heap_env [1, 0, 0, 0, 0, 0, 0, 0, 0, 0, 0, 0, 1, 0, 0, 0]
       H5VL_BLOB_DELETE file_A one_heap
     = (Inr Out_nothing, one_heap, [])"
proof -
  have d: "UINT32DECODE [1, 0, 0, 0, 5, 0, 0, 0, 0, 0, 0, 0, 1, 0, 0, 0]
             = Some (1, [5, 0, 0, 0, 0, 0, 0, 0, 1, 0, 0, 0])"
          "UINT32DECODE [1, 0, 0, 0, 5, 0, 0, 0, 0, 0, 0, 0, 2, 0, 0, 0]
             = Some (1, [5, 0, 0, 0, 0, 0, 0, 0, 2, 0, 0, 0])"
          "UINT32DECODE [1, 0, 0, 0, 0, 0, 0, 0, 0, 0, 0, 0, 1, 0, 0, 0]
             = Some (1, [0, 0, 0, 0, 0, 0, 0, 0, 1, 0, 0, 0])"
    by simp_all
  have a: "H5F_addr_decode heap_env file_A [5, 0, 0, 0, 0, 0, 0, 0, 1, 0, 0, 0] = Some (5, [1, 0, 0, 0])"
          "H5F_addr_decode heap_env file_A [5, 0, 0, 0, 0, 0, 0, 0, 2, 0, 0, 0] = Some (5, [2, 0, 0, 0])"
          "H5F_addr_decode heap_env file_A [0, 0, 0, 0, 0, 0, 0, 0, 1, 0, 0, 0] = Some (0, [1, 0, 0, 0])"
    by (simp_all add: heap_env_def file_A_def)
  have i: "UINT32DECODE [1, 0, 0, 0] = Some (1, [])" "UINT32DECODE [2, 0, 0, 0] = Some (2, [])"
    by simp_all
  have r: "H5HG_remove heap_env file_A \<lparr>hg_addr = 5, hg_idx = ucast (1 :: uint32_t)\<rparr> one_heap = (True, [])"
          "H5HG_remove heap_env file_A \<lparr>hg_addr = 5, hg_idx = ucast (2 :: uint32_t)\<rparr> one_heap
             = (False, one_heap)"
    by (simp_all add: heap_env_def one_heap_def)
  from native_blob_delete [OF d(1), of heap_env file_A one_heap] a(1) i(1) r(1)
  have w1: "H5VL__native_blob_specific heap_env [1, 0, 0, 0, 5, 0, 0, 0, 0, 0, 0, 0, 1, 0, 0, 0]
              H5VL_BLOB_DELETE file_A one_heap
            = (Inr Out_nothing, [], [Call_HG_remove file_A \<lparr>hg_addr = 5, hg_idx = 1\<rparr>])"
    by simp
  from native_blob_delete [OF d(2), of heap_env file_A one_heap] a(2) i(2) r(2)
  have w2: "H5VL__native_blob_specific heap_env [1, 0, 0, 0, 5, 0, 0, 0, 0, 0, 0, 0, 2, 0, 0, 0]
              H5VL_BLOB_DELETE file_A one_heap
            = (Inl (H5E H5E_VOL H5E_CANTREMOVE), one_heap,
               [Call_HG_remove file_A \<lparr>hg_addr = 5, hg_idx = 2\<rparr>])"
    by simp
  from native_blob_delete [OF d(3), of heap_env file_A one_heap] a(3) i(1)
  have w3: "H5VL__native_blob_specific heap_env [1, 0, 0, 0, 0, 0, 0, 0, 0, 0, 0, 0, 1, 0, 0, 0]
              H5VL_BLOB_DELETE file_A one_heap
            = (Inr Out_nothing, one_heap, [])"
    by simp
  from w1 w2 w3 show ?thesis by blast
qed

text \<open>
  C9. Let address 0 survive the address codec of the container (decoding the bytes stored
  for address 0 gives 0 and leaves the pointer behind them), and let the locator buffer
  hold a locator (4 bytes, an address, 4 bytes). Then \<^verbatim>\<open>H5VL_BLOB_SETNULL\<close> succeeds
  and rewrites the buffer so that \<^verbatim>\<open>H5VL_BLOB_ISNULL\<close> answers true on it, and
  \<^verbatim>\<open>H5VL__native_blob_get\<close> on it succeeds, returns the destination buffer as it was
  given and makes no heap call, whatever the heap holds.
\<close>

theorem setnull_isnull_get:
  assumes codec: "\<And>bytes. H5F_addr_decode env f (H5F_addr_encode env f 0 @ bytes) = Some (0, bytes)"
    and fits: "4 + length (H5F_addr_encode env f 0) + 4 \<le> length vl"
  shows "\<exists>vl1. H5VL__native_blob_specific env vl H5VL_BLOB_SETNULL f h = (Inr (Out_id vl1), h, []) \<and>
               length vl1 = length vl \<and>
               H5VL__native_blob_specific env vl1 H5VL_BLOB_ISNULL f h1
                 = (Inr (Out_isnull True), h1, []) \<and>
               H5VL__native_blob_get env vl1 f buf h2 = (Inr (), buf, h2, [])"
proof -
  let ?a = "H5F_addr_encode env f 0"
  let ?bs = "[0, 0, 0, 0] @ ?a @ [0, 0, 0, 0 :: uint8_t]"
  let ?tail = "drop (length ?bs) vl"
  let ?vl1 = "?bs @ ?tail"
  have z: "UINT32ENCODE (0 :: uint32_t) = [0, 0, 0, 0]"
    by (simp add: UINT32ENCODE_def)
  have le: "length ?bs \<le> length vl"
    using fits by simp
  have set: "H5VL__native_blob_specific env vl H5VL_BLOB_SETNULL f h = (Inr (Out_id ?vl1), h, [])"
    using le by (simp add: H5VL__native_blob_specific_def buf_store_def z)
  have len: "length ?vl1 = length vl"
    using le by simp
  have "drop 4 ?vl1 = ?a @ ([0, 0, 0, 0] @ ?tail)"
    by simp
  then have dec: "H5F_addr_decode env f (drop 4 ?vl1) = Some (0, [0, 0, 0, 0] @ ?tail)"
    using codec [of "[0, 0, 0, 0] @ ?tail"] by simp
  have l4: "\<not> length ?vl1 < 4"
    by simp
  have isnull: "H5VL__native_blob_specific env ?vl1 H5VL_BLOB_ISNULL f h1
                  = (Inr (Out_isnull True), h1, [])"
    unfolding H5VL__native_blob_specific_def using dec l4 by simp
  have get: "H5VL__native_blob_get env ?vl1 f buf h2 = (Inr (), buf, h2, [])"
    unfolding H5VL__native_blob_get_def using dec l4 by simp
  from set len isnull get show ?thesis by blast
qed

theorem setnull_isnull_get_witness:
  "H5VL__native_blob_specific heap_env [1, 0, 0, 0, 5, 0, 0, 0, 0, 0, 0, 0, 1, 0, 0, 0]
       H5VL_BLOB_SETNULL file_A one_heap
     = (Inr (Out_id [0, 0, 0, 0, 0, 0, 0, 0, 0, 0, 0, 0, 0, 0, 0, 0]), one_heap, []) \<and>
   H5VL__native_blob_specific heap_env [0, 0, 0, 0, 0, 0, 0, 0, 0, 0, 0, 0, 0, 0, 0, 0]
       H5VL_BLOB_ISNULL file_A one_heap
     = (Inr (Out_isnull True), one_heap, []) \<and>
   H5VL__native_blob_get heap_env [0, 0, 0, 0, 0, 0, 0, 0, 0, 0, 0, 0, 0, 0, 0, 0] file_A
       [1, 2, 3] one_heap
     = (Inr (), [1, 2, 3], one_heap, []) \<and>
   H5VL__native_blob_get heap_env [1, 0, 0, 0, 5, 0, 0, 0, 0, 0, 0, 0, 1, 0, 0, 0] file_A
       [1, 2, 3] one_heap
     = (Inr (), [9, 2, 3], one_heap, [Call_HG_read file_A \<lparr>hg_addr = 5, hg_idx = 1\<rparr>])"
proof -
  have fits: "4 + length (H5F_addr_encode heap_env file_A 0) + 4
                \<le> length [1, 0, 0, 0, 5, 0, 0, 0, 0, 0, 0, 0, 1, 0, 0, 0 :: uint8_t]"
    by (simp add: heap_env_encode_zero)
  have set: "H5VL__native_blob_specific heap_env [1, 0, 0, 0, 5, 0, 0, 0, 0, 0, 0, 0, 1, 0, 0, 0]
               H5VL_BLOB_SETNULL file_A one_heap
             = (Inr (Out_id [0, 0, 0, 0, 0, 0, 0, 0, 0, 0, 0, 0, 0, 0, 0, 0]), one_heap, [])"
    by (simp add: H5VL__native_blob_specific_def buf_store_def UINT32ENCODE_def
          heap_env_encode_zero)
  have live: "H5VL__native_blob_get heap_env [1, 0, 0, 0, 5, 0, 0, 0, 0, 0, 0, 0, 1, 0, 0, 0] file_A
                [1, 2, 3] one_heap
              = (Inr (), [9, 2, 3], one_heap, [Call_HG_read file_A \<lparr>hg_addr = 5, hg_idx = 1\<rparr>])"
    by (simp add: H5VL__native_blob_get_def heap_env_def file_A_def one_heap_def)
  from setnull_isnull_get [of heap_env file_A, OF heap_env_codec_zero fits,
         of one_heap one_heap "[1, 2, 3]" one_heap] set
  have "H5VL__native_blob_specific heap_env [0, 0, 0, 0, 0, 0, 0, 0, 0, 0, 0, 0, 0, 0, 0, 0]
          H5VL_BLOB_ISNULL file_A one_heap
        = (Inr (Out_isnull True), one_heap, []) \<and>
        H5VL__native_blob_get heap_env [0, 0, 0, 0, 0, 0, 0, 0, 0, 0, 0, 0, 0, 0, 0, 0] file_A
          [1, 2, 3] one_heap
        = (Inr (), [1, 2, 3], one_heap, [])"
    by auto
  with set live show ?thesis by blast
qed

end
